theory Spec2Isabelle
  imports Complex_Main "HOL-Library.Sublist" "HOL-Library.Multiset"
begin

section \<open>Python strings\<close>

text \<open>
  Strings are lists of characters; the labels, tags and names of this program are ASCII,
  so a character is a byte. \<open>str.lower\<close> maps \<open>A..Z\<close> to \<open>a..z\<close>, \<open>str.strip\<close> removes
  leading and trailing white space (the characters for which \<open>str.isspace\<close> holds in the
  ASCII range), and \<open>str.split(',')\<close> cuts at every comma and always returns at least one
  piece.
\<close>

definition lower_char :: "char \<Rightarrow> char" where
  "lower_char c =
     (let n = (of_char c :: nat) in if 65 \<le> n \<and> n \<le> 90 then char_of (n + 32) else c)"

definition lower :: "string \<Rightarrow> string" where
  "lower s = map lower_char s"

definition is_space :: "char \<Rightarrow> bool" where
  "is_space c =
     (let n = (of_char c :: nat) in (9 \<le> n \<and> n \<le> 13) \<or> (28 \<le> n \<and> n \<le> 32))"

definition strip :: "string \<Rightarrow> string" where
  "strip s = rev (dropWhile is_space (rev (dropWhile is_space s)))"

fun split_comma :: "string \<Rightarrow> string list" where
  "split_comma [] = [[]]"
| "split_comma (c # cs) =
     (if c = CHR '','' then [] # split_comma cs
      else (case split_comma cs of
              [] \<Rightarrow> [[c]]
            | w # ws \<Rightarrow> (c # w) # ws))"

section \<open>Catalog store and relevance ranker (recommender.py)\<close>

text \<open>
  A row of the product table. \<open>mood_tags\<close> is the text \<open>str(product['mood_tags'])\<close> of the
  cell. The table itself is the list of its rows, in index order.
\<close>

record product =
  product_id :: int
  name :: string
  price :: rat
  image_url :: string
  mood_tags :: string

text \<open>
  The state of a \<open>ProductRecommender\<close>: the table held in memory (\<open>None\<close> before
  anything was loaded) and the content of the CSV file at \<open>products_csv_path\<close>
  (\<open>None\<close> while the file does not exist). \<open>add_product\<close> never looks into a row, so
  the state is polymorphic in the row type.
\<close>

record 'row recommender =
  products_df :: "'row list option"
  products_csv :: "'row list option"

datatype py_error = ValueError | TypeError | OverflowError | KeyError

definition emotion_mapping :: "(string \<times> string list) list" where
  "emotion_mapping =
     [(''happy'', [''entertainment'', ''social'', ''celebration'', ''joy'', ''fun'', ''colorful'']),
      (''sad'', [''comfort'', ''cozy'', ''self-care'', ''healing'', ''soft'', ''warm'']),
      (''angry'', [''stress-relief'', ''physical'', ''intense'', ''powerful'', ''bold'']),
      (''surprise'', [''unique'', ''innovative'', ''exciting'', ''novel'', ''creative'']),
      (''fear'', [''safety'', ''security'', ''protective'', ''calming'', ''reassuring'']),
      (''disgust'', [''cleansing'', ''fresh'', ''pure'', ''minimal'', ''detox'']),
      (''neutral'', [''practical'', ''everyday'', ''basic'', ''functional'', ''versatile''])]"

text \<open>
  The two random draws of \<open>get_recommendations\<close> are inputs of the model:
  \<open>uniform i\<close> is the value \<open>np.random.uniform(-0.1, 0.1)\<close> returns for the row at
  position \<open>i\<close>, and \<open>permutation\<close> is the order in which \<open>DataFrame.sample\<close> draws the
  row positions (without replacement). Scores are rational numbers: the rounding of
  Python's floats is not modelled.
\<close>

record rng =
  uniform :: "nat \<Rightarrow> rat"
  permutation :: "nat list"


definition product_tags_of :: "product \<Rightarrow> string list" where
  "product_tags_of p = map strip (split_comma (lower (mood_tags p)))"

text \<open>
  \<open>len(set(E) & set(T)) / len(set(E) | set(T))\<close>. The union is never empty, because
  every list of emotion tags is non-empty (and so is every list of product tags), so
  the division never raises.
\<close>

definition jaccard :: "string list \<Rightarrow> string list \<Rightarrow> rat" where
  "jaccard emotion_tags product_tags =
     of_nat (card (set emotion_tags \<inter> set product_tags)) /
     of_nat (card (set emotion_tags \<union> set product_tags))"

definition scores_of :: "rng \<Rightarrow> string list \<Rightarrow> product list \<Rightarrow> rat list" where
  "scores_of g emotion_tags df =
     map (\<lambda>(i, p). jaccard emotion_tags (product_tags_of p) + uniform g i)
       (zip [0..<length df] df)"

text \<open>
  \<open>sort_values('relevance_score', ascending=False)\<close>: descending by score; rows with
  equal scores are kept in table order here (the order pandas gives them is not fixed
  by its default sorting algorithm, and no property below depends on it).
\<close>

definition sort_values_desc :: "('a \<times> rat) list \<Rightarrow> ('a \<times> rat) list" where
  "sort_values_desc rows = sort_key (\<lambda>r. - snd r) rows"

text \<open>\<open>DataFrame.head(n)\<close>: the first \<open>n\<close> rows, or all but the last \<open>-n\<close> rows when \<open>n < 0\<close>.\<close>

definition head_df :: "int \<Rightarrow> 'a list \<Rightarrow> 'a list" where
  "head_df n rows =
     (if 0 \<le> n then take (nat n) rows else take (length rows - nat (- n)) rows)"

text \<open>\<open>DataFrame.sample(n=k)\<close>: \<open>k\<close> rows drawn without replacement; a negative \<open>k\<close> raises.\<close>

definition sample_df :: "rng \<Rightarrow> int \<Rightarrow> 'a list \<Rightarrow> py_error + 'a list" where
  "sample_df g k rows =
     (if k < 0 then Inl ValueError
      else Inr (map (\<lambda>i. rows ! i) (take (nat k) (permutation g))))"

definition ranked :: "rng \<Rightarrow> string list \<Rightarrow> product list \<Rightarrow> (product \<times> rat) list" where
  "ranked g emotion_tags df = sort_values_desc (zip df (scores_of g emotion_tags df))"

definition get_recommendations ::
  "rng \<Rightarrow> product recommender \<Rightarrow> string \<Rightarrow> int \<Rightarrow> py_error + product list" where
  "get_recommendations g self emotion n_recommendations =
     (case products_df self of
        None \<Rightarrow> Inr []
      | Some df \<Rightarrow>
          if df = [] then Inr []
          else
            let emotion = lower emotion in
            (case map_of emotion_mapping emotion of
               None \<Rightarrow> sample_df g (min n_recommendations (int (length df))) df
             | Some emotion_tags \<Rightarrow>
                 Inr (map fst (head_df n_recommendations (ranked g emotion_tags df)))))"

text \<open>\<open>add_product\<close> appends the row to the table and rewrites the CSV file from the table.\<close>

definition add_product :: "'row \<Rightarrow> 'row recommender \<Rightarrow> 'row recommender" where
  "add_product product_data self =
     (let df = (case products_df self of None \<Rightarrow> [] | Some rows \<Rightarrow> rows);
          df' = df @ [product_data]
      in self\<lparr>products_df := Some df', products_csv := Some df'\<rparr>)"

text \<open>The two rows of \<open>_create_sample_products\<close> and the tags of \<open>'happy'\<close>.\<close>

definition headphones :: product where
  "headphones = \<lparr>product_id = 1, name = ''Wireless Bluetooth Headphones'', price = 9999 / 100,
     image_url = ''https://images.unsplash.com/photo-1505740420928-5e560c06d30e?w=300'',
     mood_tags = ''entertainment, music, joy, fun''\<rparr>"


definition happy_tags :: "string list" where
  "happy_tags = [''entertainment'', ''social'', ''celebration'', ''joy'', ''fun'', ''colorful'']"

section \<open>Product validation (utils.py)\<close>

text \<open>
  The values a field of \<open>product_data\<close> can hold. \<open>float(x)\<close> and \<open>int(x)\<close> are
  modelled by whether they return or raise; which strings Python parses as a float or
  as an integer is a parameter. \<open>float\<close> of an integer raises \<open>OverflowError\<close> from
  \<open>2^1024 - 2^970\<close> on (the first integer that rounds beyond the largest double);
  \<open>int\<close> of an infinite float raises \<open>OverflowError\<close>, \<open>int\<close> of NaN raises
  \<open>ValueError\<close>.
\<close>

datatype pyval = PNone | PBool bool | PInt int | PFloat rat | PNan | PInf | PStr string

record py_parse =
  float_str :: "string \<Rightarrow> bool"
  int_str :: "string \<Rightarrow> bool"

fun py_float :: "py_parse \<Rightarrow> pyval \<Rightarrow> py_error + unit" where
  "py_float P PNone = Inl TypeError"
| "py_float P (PBool b) = Inr ()"
| "py_float P (PInt i) = (if \<bar>i\<bar> < 2 ^ 1024 - 2 ^ 970 then Inr () else Inl OverflowError)"
| "py_float P (PFloat x) = Inr ()"
| "py_float P PNan = Inr ()"
| "py_float P PInf = Inr ()"
| "py_float P (PStr s) = (if float_str P s then Inr () else Inl ValueError)"

fun py_int :: "py_parse \<Rightarrow> pyval \<Rightarrow> py_error + unit" where
  "py_int P PNone = Inl TypeError"
| "py_int P (PBool b) = Inr ()"
| "py_int P (PInt i) = Inr ()"
| "py_int P (PFloat x) = Inr ()"
| "py_int P PNan = Inl ValueError"
| "py_int P PInf = Inl OverflowError"
| "py_int P (PStr s) = (if int_str P s then Inr () else Inl ValueError)"

definition required_fields :: "string list" where
  "required_fields = [''product_id'', ''name'', ''price'', ''mood_tags'']"

text \<open>
  \<open>product_data\<close> is a dictionary, here an association list. The \<open>except\<close> clause
  catches \<open>ValueError\<close> and \<open>TypeError\<close> only; any other exception leaves the function.
\<close>

definition caught :: "py_error \<Rightarrow> bool" where
  "caught e \<longleftrightarrow> e = ValueError \<or> e = TypeError"

definition validate_product_data ::
  "py_parse \<Rightarrow> (string \<times> pyval) list \<Rightarrow> py_error + (bool \<times> string)" where
  "validate_product_data P product_data =
     (case find (\<lambda>field. map_of product_data field = None) required_fields of
        Some field \<Rightarrow> Inr (False, ''Missing required field: '' @ field)
      | None \<Rightarrow>
          (case (case map_of product_data ''price'' of
                   None \<Rightarrow> Inl KeyError
                 | Some v \<Rightarrow> py_float P v) of
             Inl e \<Rightarrow>
               if caught e then Inr (False, ''Invalid format in price or product_id'') else Inl e
           | Inr _ \<Rightarrow>
               (case (case map_of product_data ''product_id'' of
                        None \<Rightarrow> Inl KeyError
                      | Some v \<Rightarrow> py_int P v) of
                  Inl e \<Rightarrow>
                    if caught e then Inr (False, ''Invalid format in price or product_id'')
                    else Inl e
                | Inr _ \<Rightarrow> Inr (True, ''Valid''))))"

section \<open>Feedback log (utils.py)\<close>

text \<open>
  A row of the feedback table. In \<open>data/feedback.csv\<close> the cells of the three text
  columns are texts (\<open>string feedback_row\<close>); in a DataFrame they are what pandas made
  of them (\<open>cell option feedback_row\<close>, see below). The three other columns hold
  numbers. The file is the list of its rows; \<open>None\<close> is the absent file, \<open>Some []\<close> a
  file without data rows (only the header, or nothing at all). The directory \<open>data\<close>
  is taken to exist.
\<close>

record 'c feedback_row =
  timestamp :: 'c
  detected_emotion :: 'c
  confidence :: rat
  rating :: int
  feedback_text :: 'c
  num_recommendations :: int

type_synonym feedback_file = "string feedback_row list option"

text \<open>
  What \<open>pd.read_csv\<close> makes of a text column. A cell that is empty or holds one of the
  default NA tokens is read as a missing value (\<open>None\<close>). When every other cell of the
  column parses as a number, or every other cell as a boolean, the column is re-typed
  and its cells are numbers or booleans (\<open>Retyped\<close>); otherwise the cells keep their
  text (\<open>Text\<close>). Which texts pandas parses as a number or as a boolean, and which text
  \<open>to_csv\<close> writes for a re-typed cell of a column, are parameters; a re-typed value
  is named by the text written for it.
\<close>

definition csv_na_values :: "string list" where
  "csv_na_values =
     ['''', ''#N/A'', ''#N/A N/A'', ''#NA'', ''-1.#IND'', ''-1.#QNAN'', ''-NaN'', ''-nan'',
      ''1.#IND'', ''1.#QNAN'', ''<NA>'', ''N/A'', ''NA'', ''NULL'', ''NaN'', ''None'', ''n/a'',
      ''nan'', ''null'']"

definition is_na :: "string \<Rightarrow> bool" where
  "is_na s \<longleftrightarrow> s \<in> set csv_na_values"

record csv_reader =
  number_like :: "string \<Rightarrow> bool"
  bool_like :: "string \<Rightarrow> bool"
  rewritten :: "string list \<Rightarrow> string \<Rightarrow> string"

datatype cell = Text string | Retyped string

definition retyped :: "csv_reader \<Rightarrow> string list \<Rightarrow> bool" where
  "retyped R col =
     (let present = filter (\<lambda>s. \<not> is_na s) col
      in present \<noteq> [] \<and> (list_all (number_like R) present \<or> list_all (bool_like R) present))"

definition read_cell :: "csv_reader \<Rightarrow> string list \<Rightarrow> string \<Rightarrow> cell option" where
  "read_cell R col s =
     (if is_na s then None
      else if retyped R col then Some (Retyped (rewritten R col s))
      else Some (Text s))"

text \<open>\<open>to_csv\<close> writes a missing value as the empty field and a text as it is.\<close>

fun write_cell :: "cell option \<Rightarrow> string" where
  "write_cell None = []"
| "write_cell (Some (Text s)) = s"
| "write_cell (Some (Retyped c)) = c"

definition read_csv :: "csv_reader \<Rightarrow> string feedback_row list \<Rightarrow> cell option feedback_row list" where
  "read_csv R rows =
     map (\<lambda>r. \<lparr>timestamp = read_cell R (map timestamp rows) (timestamp r),
               detected_emotion = read_cell R (map detected_emotion rows) (detected_emotion r),
               confidence = confidence r,
               rating = rating r,
               feedback_text = read_cell R (map feedback_text rows) (feedback_text r),
               num_recommendations = num_recommendations r\<rparr>) rows"

definition to_csv :: "cell option feedback_row list \<Rightarrow> string feedback_row list" where
  "to_csv df =
     map (\<lambda>r. \<lparr>timestamp = write_cell (timestamp r),
               detected_emotion = write_cell (detected_emotion r),
               confidence = confidence r,
               rating = rating r,
               feedback_text = write_cell (feedback_text r),
               num_recommendations = num_recommendations r\<rparr>) df"

text \<open>
  Reading the log in \<open>log_feedback\<close>: both exceptions the function catches (the file is
  absent, the file is empty) give the empty table.
\<close>

definition read_feedback :: "csv_reader \<Rightarrow> feedback_file \<Rightarrow> cell option feedback_row list" where
  "read_feedback R file = (case file of None \<Rightarrow> [] | Some rows \<Rightarrow> read_csv R rows)"

text \<open>
  \<open>log_feedback\<close>: the table read from the file, the new row after it, and the whole
  written back. \<open>now\<close> is the text \<open>datetime.now().isoformat()\<close> returns at the call;
  the cells of the new row are the strings passed in.
\<close>

definition log_feedback ::
  "csv_reader \<Rightarrow> string \<Rightarrow> string \<Rightarrow> rat \<Rightarrow> int \<Rightarrow> string \<Rightarrow> int \<Rightarrow> feedback_file \<Rightarrow>
     feedback_file" where
  "log_feedback R now emotion conf stars text num file =
     (let new_feedback = \<lparr>timestamp = Some (Text now), detected_emotion = Some (Text emotion),
            confidence = conf, rating = stars, feedback_text = Some (Text text),
            num_recommendations = num\<rparr>;
          df = read_feedback R file
      in Some (to_csv (df @ [new_feedback])))"

text \<open>\<open>value_counts()\<close> counts the values of a column and leaves out the missing ones.\<close>

definition value_counts :: "'a option list \<Rightarrow> ('a \<rightharpoonup> nat)" where
  "value_counts cells =
     (\<lambda>k. let c = count_list cells (Some k) in if c = 0 then None else Some c)"

definition mean_of :: "rat list \<Rightarrow> rat" where
  "mean_of xs = sum_list xs / of_nat (length xs)"

record confidence_summary =
  conf_mean :: rat
  conf_min :: rat
  conf_max :: rat

record feedback_summary =
  total_feedback :: nat
  average_rating :: rat
  emotion_distribution :: "cell \<rightharpoonup> nat"
  confidence_stats :: confidence_summary

definition export_feedback_summary :: "csv_reader \<Rightarrow> feedback_file \<Rightarrow> feedback_summary option" where
  "export_feedback_summary R file =
     (case file of
        None \<Rightarrow> None
      | Some rows \<Rightarrow>
          let df = read_csv R rows in
          if df = [] then None
          else Some \<lparr>total_feedback = length df,
                 average_rating = mean_of (map (\<lambda>r. of_int (rating r)) df),
                 emotion_distribution = value_counts (map detected_emotion df),
                 confidence_stats =
                   \<lparr>conf_mean = mean_of (map confidence df),
                    conf_min = Min (set (map confidence df)),
                    conf_max = Max (set (map confidence df))\<rparr>\<rparr>)"

section \<open>Playlist search adapter (integrations/spotify_utils.py)\<close>

text \<open>
  A playlist as \<open>_search_playlists\<close> returns it, and an item of the provider's answer as
  that function reads it: \<open>item_name\<close> is \<open>playlist.get('name')\<close>, \<open>external_urls\<close> is
  \<open>playlist.get('external_urls')\<close>, \<open>images\<close> holds the \<open>url\<close> of each image,
  \<open>tracks_total\<close> is \<open>playlist.get('tracks', {}).get('total', 0)\<close> and \<open>owner_name\<close>
  is \<open>playlist.get('owner', {}).get('display_name', 'Unknown')\<close>. An item of the
  answer may be \<open>None\<close>.
\<close>

record playlist =
  name :: string
  url :: string
  image :: "string option"
  description :: string
  total_tracks :: int
  owner :: string

record raw_playlist =
  item_name :: "string option"
  external_urls :: "(string \<times> string) list option"
  images :: "string list"
  item_description :: string
  tracks_total :: int
  owner_name :: string

text \<open>
  The client is the function \<open>search\<close> of the provider, from the query text to the
  items of its answer; \<open>None\<close> is a call that raises.
\<close>

type_synonym spotify_client = "string \<Rightarrow> raw_playlist option list option"

record spotify_recommender =
  client :: "spotify_client option"

definition mood_keywords :: "(string \<times> string list) list" where
  "mood_keywords =
     [(''happy'', [''happy'', ''upbeat'', ''positive'', ''cheerful'', ''joyful'']),
      (''sad'', [''sad'', ''melancholy'', ''emotional'', ''heartbreak'', ''blue'']),
      (''angry'', [''angry'', ''rage'', ''metal'', ''punk'', ''aggressive'']),
      (''surprised'', [''energetic'', ''exciting'', ''surprise'', ''uplifting'', ''dynamic'']),
      (''fear'', [''calm'', ''relaxing'', ''soothing'', ''peaceful'', ''meditation'']),
      (''disgust'', [''alternative'', ''indie'', ''experimental'', ''unique'', ''different'']),
      (''neutral'', [''chill'', ''ambient'', ''focus'', ''study'', ''background'']),
      (''energetic'', [''workout'', ''pump up'', ''energetic'', ''motivation'', ''power'']),
      (''relaxed'', [''chill'', ''lounge'', ''ambient'', ''relaxing'', ''calm'']),
      (''romantic'', [''love'', ''romantic'', ''valentine'', ''date night'', ''intimate''])]"

text \<open>
  \<open>_initialize_client\<close>: without both credentials there is no client; otherwise the
  client is built (\<open>connect\<close> is what the constructor gives, \<open>None\<close> when it raises) and
  one test search is made; any exception leaves the client \<open>None\<close>.
\<close>

record spotify_env =
  client_id :: "string option"
  client_secret :: "string option"
  connect :: "spotify_client option"

definition falsy_str :: "string option \<Rightarrow> bool" where
  "falsy_str s \<longleftrightarrow> s = None \<or> s = Some []"

definition initialize_client :: "spotify_env \<Rightarrow> spotify_recommender" where
  "initialize_client env =
     (if falsy_str (client_id env) \<or> falsy_str (client_secret env) then \<lparr>client = None\<rparr>
      else (case connect env of
              None \<Rightarrow> \<lparr>client = None\<rparr>
            | Some c \<Rightarrow>
                (case c ''test'' of
                   None \<Rightarrow> \<lparr>client = None\<rparr>
                 | Some _ \<Rightarrow> \<lparr>client = Some c\<rparr>)))"

definition get_search_terms :: "string \<Rightarrow> string list" where
  "get_search_terms mood =
     (let mood_lower = strip (lower mood) in
      case map_of mood_keywords mood_lower of
        None \<Rightarrow> [''music'', ''playlist'', ''songs'']
      | Some terms \<Rightarrow> terms)"

text \<open>
  The loop of \<open>_search_playlists\<close> over the items of an answer. An item that is
  \<open>None\<close>, or has no name or no \<open>external_urls\<close>, is skipped; an item whose
  \<open>external_urls\<close> has no key \<open>'spotify'\<close> raises, which is the result \<open>None\<close> here.
\<close>

fun normalize_items :: "raw_playlist option list \<Rightarrow> playlist list option" where
  "normalize_items [] = Some []"
| "normalize_items (None # items) = normalize_items items"
| "normalize_items (Some item # items) =
     (if item_name item \<noteq> None \<and> item_name item \<noteq> Some [] \<and>
         external_urls item \<noteq> None \<and> external_urls item \<noteq> Some []
      then
        (case map_of (the (external_urls item)) ''spotify'' of
           None \<Rightarrow> None
         | Some link \<Rightarrow>
             (case normalize_items items of
                None \<Rightarrow> None
              | Some rest \<Rightarrow>
                  Some (\<lparr>name = the (item_name item), url = link,
                         image = (case images item of [] \<Rightarrow> None | u # _ \<Rightarrow> Some u),
                         description = item_description item,
                         total_tracks = tracks_total item,
                         owner = owner_name item\<rparr> # rest)))
      else normalize_items items)"

text \<open>\<open>_search_playlists\<close>: every exception is caught and gives the empty list.\<close>

definition search_playlists :: "spotify_client \<Rightarrow> string \<Rightarrow> playlist list" where
  "search_playlists c search_term =
     (case c search_term of
        None \<Rightarrow> []
      | Some items \<Rightarrow> (case normalize_items items of None \<Rightarrow> [] | Some playlists \<Rightarrow> playlists))"

text \<open>
  The first loop of \<open>get_playlists_by_mood\<close>: one search for each term, until the
  playlists gathered reach twice \<open>n_playlists\<close>. The second component is the list of
  the queries sent to the client, in order.
\<close>

fun gather :: "spotify_client \<Rightarrow> int \<Rightarrow> string list \<Rightarrow> playlist list \<Rightarrow> string list \<Rightarrow>
    playlist list \<times> string list" where
  "gather c n_playlists [] all_playlists sent = (all_playlists, sent)"
| "gather c n_playlists (term # terms) all_playlists sent =
     (let query = term @ '' playlist'';
          all_playlists' = all_playlists @ search_playlists c query;
          sent' = sent @ [query]
      in if n_playlists * 2 \<le> int (length all_playlists') then (all_playlists', sent')
         else gather c n_playlists terms all_playlists' sent')"

text \<open>
  The second loop: a playlist is accepted when its lower-cased name was not accepted
  before, its name has more than 3 characters and it has more than 10 tracks; only an
  accepted playlist enters \<open>seen_names\<close>. The loop stops once \<open>n_playlists\<close> playlists
  are accepted.
\<close>

fun unique_loop :: "int \<Rightarrow> playlist list \<Rightarrow> string set \<Rightarrow> playlist list \<Rightarrow> playlist list" where
  "unique_loop n_playlists [] seen_names unique_playlists = unique_playlists"
| "unique_loop n_playlists (p # ps) seen_names unique_playlists =
     (let name_lower = lower (name p) in
      if name_lower \<notin> seen_names \<and> 3 < length (name p) \<and> 10 < total_tracks p then
        (let seen_names' = insert name_lower seen_names;
             unique_playlists' = unique_playlists @ [p]
         in if n_playlists \<le> int (length unique_playlists') then unique_playlists'
            else unique_loop n_playlists ps seen_names' unique_playlists')
      else unique_loop n_playlists ps seen_names unique_playlists)"

text \<open>The slice \<open>xs[:n]\<close>; a negative \<open>n\<close> counts from the end.\<close>

definition slice_to :: "int \<Rightarrow> 'a list \<Rightarrow> 'a list" where
  "slice_to n xs = (if 0 \<le> n then take (nat n) xs else take (length xs - nat (- n)) xs)"

text \<open>
  \<open>get_playlists_by_mood\<close>, with the queries it sent. \<open>mood\<close> is a string or \<open>None\<close>.
  With the playlists typed as above nothing inside the \<open>try\<close> block raises.
\<close>

definition get_playlists_by_mood ::
  "spotify_recommender \<Rightarrow> string option \<Rightarrow> int \<Rightarrow> playlist list \<times> string list" where
  "get_playlists_by_mood self mood n_playlists =
     (case client self of
        None \<Rightarrow> ([], [])
      | Some c \<Rightarrow>
          let mood = (if falsy_str mood then ''music'' else the mood);
              search_terms = get_search_terms mood;
              (all_playlists, sent) = gather c n_playlists (take 3 search_terms) [] [];
              unique_playlists = unique_loop n_playlists all_playlists {} []
          in (slice_to n_playlists unique_playlists, sent))"

text \<open>
  The block "remove duplicates and filter by quality" of \<open>get_playlists_by_mood\<close>
  (the second loop and the final slice), as a function of the playlists gathered.
\<close>

definition select_playlists :: "int \<Rightarrow> playlist list \<Rightarrow> playlist list" where
  "select_playlists n_playlists all_playlists =
     slice_to n_playlists (unique_loop n_playlists all_playlists {} [])"

section \<open>Notions used to state the properties of the adapter\<close>

text \<open>
  The quality test of the loop as a predicate, the key by which names are compared, and
  the removal of duplicates that keeps the first playlist of every key, in order.
\<close>

definition passes_quality :: "playlist \<Rightarrow> bool" where
  "passes_quality p \<longleftrightarrow> 3 < length (name p) \<and> 10 < total_tracks p"

definition name_key :: "playlist \<Rightarrow> string" where
  "name_key p = lower (name p)"

fun first_of_each_name :: "string set \<Rightarrow> playlist list \<Rightarrow> playlist list" where
  "first_of_each_name seen [] = []"
| "first_of_each_name seen (p # ps) =
     (if name_key p \<in> seen then first_of_each_name seen ps
      else p # first_of_each_name (insert (name_key p) seen) ps)"

section \<open>Example data\<close>



text \<open>Two items for \<open>add_product\<close> and \<open>validate_product_data\<close>.\<close>

definition item_without_name :: "(string \<times> pyval) list" where
  "item_without_name = [(''product_id'', PStr ''abc''), (''price'', PFloat (- 5))]"

definition negative_price_item :: "(string \<times> pyval) list" where
  "negative_price_item =
     [(''product_id'', PInt 7), (''name'', PStr ''Lamp''), (''price'', PFloat (- 5)),
      (''mood_tags'', PStr ''cozy, warm'')]"

text \<open>
  For the feedback log: the rows stored in a file, read without pandas; the text a
  text cell has after the log is read and written back when its column keeps its texts;
  the reader's property that what is written for a number or a boolean is read as a
  number or a boolean again; and what \<open>summarize\<close> reports for a log, read as numbers
  (the total and the count of one text label, both 0 when there is no summary or no
  entry).
\<close>

definition stored_rows :: "feedback_file \<Rightarrow> string feedback_row list" where
  "stored_rows file = (case file of None \<Rightarrow> [] | Some rows \<Rightarrow> rows)"


definition reader_stable :: "csv_reader \<Rightarrow> bool" where
  "reader_stable R \<longleftrightarrow>
     (\<forall>col s. number_like R s \<or> bool_like R s \<longrightarrow>
        number_like R (rewritten R col s) \<or> bool_like R (rewritten R col s))"

definition total_before :: "csv_reader \<Rightarrow> feedback_file \<Rightarrow> nat" where
  "total_before R file =
     (case export_feedback_summary R file of None \<Rightarrow> 0 | Some s \<Rightarrow> total_feedback s)"

definition count_before :: "csv_reader \<Rightarrow> feedback_file \<Rightarrow> string \<Rightarrow> nat" where
  "count_before R file e =
     (case export_feedback_summary R file of
        None \<Rightarrow> 0
      | Some s \<Rightarrow> (case emotion_distribution s (Text e) of None \<Rightarrow> 0 | Some m \<Rightarrow> m))"

text \<open>
  A reader for the examples: it takes the ten one-digit texts for numbers and
  \<open>True\<close> and \<open>False\<close> for booleans, and writes them back as read. The examples use it
  on columns of words and NA tokens, and on a column that holds the single text \<open>1\<close>,
  where this is what pandas does.
\<close>

definition example_reader :: csv_reader where
  "example_reader =
     \<lparr>number_like = (\<lambda>s. case s of [c] \<Rightarrow> c \<in> set ''0123456789'' | _ \<Rightarrow> False),
      bool_like = (\<lambda>s. s = ''True'' \<or> s = ''False''),
      rewritten = (\<lambda>col s. s)\<rparr>"

text \<open>
  Feedback rows: the record of the end-to-end scenario, one out of range, and one whose
  text is an NA token.
\<close>

definition sad_at :: "string \<Rightarrow> string feedback_row" where
  "sad_at now = \<lparr>timestamp = now, detected_emotion = ''sad'', confidence = 82 / 100, rating = 4,
     feedback_text = '''', num_recommendations = 5\<rparr>"




text \<open>
  Playlists for the adapter: two whose names differ only in case, two with a name at the
  boundary of the quality test, and a client that answers every query with the same
  three items (one of them \<open>None\<close>).
\<close>

definition happy_vibes :: playlist where
  "happy_vibes = \<lparr>name = ''Happy Vibes'', url = ''https://open.spotify.com/playlist/1'',
     image = None, description = '''', total_tracks = 40, owner = ''Unknown''\<rparr>"

definition happy_vibes_lc :: playlist where
  "happy_vibes_lc = \<lparr>name = ''happy vibes'', url = ''https://open.spotify.com/playlist/2'',
     image = None, description = '''', total_tracks = 25, owner = ''Unknown''\<rparr>"





definition raw_of :: "playlist \<Rightarrow> raw_playlist" where
  "raw_of p = \<lparr>item_name = Some (name p), external_urls = Some [(''spotify'', url p)],
     images = [], item_description = description p, tracks_total = total_tracks p,
     owner_name = owner p\<rparr>"

definition vibes_client :: spotify_client where
  "vibes_client query = Some [Some (raw_of happy_vibes), None, Some (raw_of happy_vibes_lc)]"

section \<open>Facts about the ranker\<close>








lemma set_ranked: "set (ranked g E df) = set (zip df (scores_of g E df))"
  by (simp add: ranked_def sort_values_desc_def)







lemma happy_lookup: "map_of emotion_mapping ''happy'' = Some happy_tags"
  by (simp add: emotion_mapping_def happy_tags_def)

lemma lower_happy: "lower ''happy'' = ''happy''"
  by code_simp

lemma tags_of_scenario:
  assumes "mood_tags p = ''entertainment, music, joy, fun''"
  shows "product_tags_of p = [''entertainment'', ''music'', ''joy'', ''fun'']"
proof -
  have "map strip (split_comma (lower ''entertainment, music, joy, fun'')) =
        [''entertainment'', ''music'', ''joy'', ''fun'']"
    by code_simp
  with assms show ?thesis by (simp only: product_tags_of_def)
qed

lemma jaccard_scenario:
  "jaccard happy_tags [''entertainment'', ''music'', ''joy'', ''fun''] = 3 / 7"
  by code_simp

lemma ranked_single: "ranked g E [p] = [(p, jaccard E (product_tags_of p) + uniform g 0)]"
  by (simp add: ranked_def sort_values_desc_def scores_of_def)

lemma get_recommendations_known:
  assumes "map_of emotion_mapping (lower e) = Some E" and "df \<noteq> []"
  shows "get_recommendations g \<lparr>products_df = Some df, products_csv = f\<rparr> e n =
         Inr (map fst (head_df n (ranked g E df)))"
  using assms by (simp add: get_recommendations_def Let_def)



section \<open>The claims about the ranker\<close>

text \<open>
  C1 (as amended). For a catalog of exactly one item whose \<open>mood_tags\<close> are
  \<open>"entertainment, music, joy, fun"\<close>, the emotion \<open>"happy"\<close> has the descriptor tags
  entertainment, social, celebration, joy, fun, colorful; the two tag sets share three
  tags (entertainment, joy, fun) and their union has seven, so the score before the
  perturbation is \<open>3/7\<close>, the only score is \<open>3/7\<close> plus the perturbation of row 0, and
  the item is the result of ranking \<open>"happy"\<close> with \<open>n = 1\<close>, whatever the random draws.
\<close>

theorem C1_happy_scenario:
  assumes "mood_tags p = ''entertainment, music, joy, fun''"
  shows "map_of emotion_mapping (lower ''happy'') = Some happy_tags \<and>
         jaccard happy_tags (product_tags_of p) = 3 / 7 \<and>
         scores_of g happy_tags [p] = [3 / 7 + uniform g 0] \<and>
         get_recommendations g \<lparr>products_df = Some [p], products_csv = f\<rparr> ''happy'' 1 = Inr [p]"
proof -
  have look: "map_of emotion_mapping (lower ''happy'') = Some happy_tags"
    by (simp only: lower_happy happy_lookup)
  have jac: "jaccard happy_tags (product_tags_of p) = 3 / 7"
    by (simp only: tags_of_scenario [OF assms] jaccard_scenario)
  have sc: "scores_of g happy_tags [p] = [3 / 7 + uniform g 0]"
    by (simp add: scores_of_def jac)
  have "get_recommendations g \<lparr>products_df = Some [p], products_csv = f\<rparr> ''happy'' 1 =
        Inr (map fst (head_df 1 (ranked g happy_tags [p])))"
    by (rule get_recommendations_known [OF look]) simp
  then have "get_recommendations g \<lparr>products_df = Some [p], products_csv = f\<rparr> ''happy'' 1 =
        Inr [p]"
    by (simp add: ranked_single head_df_def)
  with look jac sc show ?thesis by blast
qed

theorem C1_happy_scenario_witness:
  "mood_tags headphones = ''entertainment, music, joy, fun'' \<and>
   jaccard happy_tags (product_tags_of headphones) = 3 / 7 \<and>
   get_recommendations \<lparr>uniform = (\<lambda>i. 0), permutation = [0]\<rparr>
     \<lparr>products_df = Some [headphones], products_csv = None\<rparr> ''happy'' 1 = Inr [headphones]"
proof -
  have h: "mood_tags headphones = ''entertainment, music, joy, fun''"
    by (simp add: headphones_def)
  show ?thesis
    using h C1_happy_scenario [OF h, of "\<lparr>uniform = (\<lambda>i. 0), permutation = [0]\<rparr>" None]
    by simp
qed

text \<open>
  C1 as stated fails: the score of that item for \<open>"happy"\<close> is not \<open>4/6\<close>.
\<close>

theorem C1_counterexample:
  "jaccard happy_tags (product_tags_of headphones) \<noteq> 4 / 6"
proof -
  have h: "mood_tags headphones = ''entertainment, music, joy, fun''"
    by (simp add: headphones_def)
  have "jaccard happy_tags (product_tags_of headphones) = 3 / 7"
    by (simp only: tags_of_scenario [OF h] jaccard_scenario)
  then show ?thesis by simp
qed




lemma product_tags_upd_id [simp]: "product_tags_of (p\<lparr>product_id := i\<rparr>) = product_tags_of p"
  by (simp add: product_tags_of_def)



















section \<open>The claims about adding products\<close>

lemma find_required_None:
  "find (\<lambda>field. map_of pd field = None) required_fields = None \<longleftrightarrow>
   (\<forall>field\<in>set required_fields. map_of pd field \<noteq> None)"
  by (auto simp: find_None_iff)

lemma validate_valid_iff:
  "validate_product_data P pd = Inr (True, ''Valid'') \<longleftrightarrow>
     (\<forall>field\<in>set required_fields. map_of pd field \<noteq> None) \<and>
     (\<exists>v. map_of pd ''price'' = Some v \<and> py_float P v = Inr ()) \<and>
     (\<exists>w. map_of pd ''product_id'' = Some w \<and> py_int P w = Inr ())"
proof (cases "find (\<lambda>field. map_of pd field = None) required_fields")
  case (Some field)
  then have "\<not> (\<forall>field\<in>set required_fields. map_of pd field \<noteq> None)"
    using find_required_None [of pd] by simp
  with Some show ?thesis by (simp add: validate_product_data_def)
next
  case None
  then have all: "\<forall>field\<in>set required_fields. map_of pd field \<noteq> None"
    using find_required_None [of pd] by simp
  then obtain v w where v: "map_of pd ''price'' = Some v" and w: "map_of pd ''product_id'' = Some w"
    by (auto simp: required_fields_def)
  show ?thesis
    using None all v w
    by (auto simp: validate_product_data_def caught_def split: sum.splits)
qed

text \<open>
  C2 (as amended). \<open>add(item)\<close> does not validate and never rejects: for every item and
  every state it appends the item to the catalog and rewrites the stored catalog in
  full, so that the table and the file both hold the former rows followed by the item.
  Validation is a separate function that \<open>add\<close> does not call. It accepts an item
  exactly when the four fields \<open>product_id\<close>, \<open>name\<close>, \<open>price\<close> and \<open>mood_tags\<close> are
  present, \<open>float(price)\<close> returns and \<open>int(product_id)\<close> returns; it does not require
  the price to be non-negative.
\<close>

theorem C2_add_product_appends:
  "products_df (add_product item self) =
     Some ((case products_df self of None \<Rightarrow> [] | Some rows \<Rightarrow> rows) @ [item]) \<and>
   products_csv (add_product item self) = products_df (add_product item self) \<and>
   (validate_product_data P pd = Inr (True, ''Valid'') \<longleftrightarrow>
     (\<forall>field\<in>set required_fields. map_of pd field \<noteq> None) \<and>
     (\<exists>v. map_of pd ''price'' = Some v \<and> py_float P v = Inr ()) \<and>
     (\<exists>w. map_of pd ''product_id'' = Some w \<and> py_int P w = Inr ()))"
proof -
  have "products_df (add_product item self) =
     Some ((case products_df self of None \<Rightarrow> [] | Some rows \<Rightarrow> rows) @ [item])"
    by (simp add: add_product_def Let_def)
  moreover have "products_csv (add_product item self) = products_df (add_product item self)"
    by (simp add: add_product_def Let_def)
  ultimately show ?thesis using validate_valid_iff [of P pd] by blast
qed

theorem C2_add_product_appends_witness:
  "map_of negative_price_item ''price'' = Some (PFloat (- 5)) \<and>
   map_of negative_price_item ''product_id'' = Some (PInt 7) \<and>
   validate_product_data \<lparr>float_str = (\<lambda>s. False), int_str = (\<lambda>s. False)\<rparr> negative_price_item
     = Inr (True, ''Valid'') \<and>
   products_df (add_product negative_price_item \<lparr>products_df = Some [], products_csv = Some []\<rparr>)
     = Some [negative_price_item]"
proof -
  have a: "\<forall>field\<in>set required_fields. map_of negative_price_item field \<noteq> None"
    by (simp add: required_fields_def negative_price_item_def)
  have b: "\<exists>v. map_of negative_price_item ''price'' = Some v \<and>
      py_float \<lparr>float_str = (\<lambda>s. False), int_str = (\<lambda>s. False)\<rparr> v = Inr ()"
    by (simp add: negative_price_item_def)
  have c: "\<exists>w. map_of negative_price_item ''product_id'' = Some w \<and>
      py_int \<lparr>float_str = (\<lambda>s. False), int_str = (\<lambda>s. False)\<rparr> w = Inr ()"
    by (simp add: negative_price_item_def)
  note T = C2_add_product_appends [of negative_price_item
      "\<lparr>products_df = Some [], products_csv = Some []\<rparr>"
      "\<lparr>float_str = (\<lambda>s. False), int_str = (\<lambda>s. False)\<rparr>" negative_price_item]
  from T a b c have "validate_product_data \<lparr>float_str = (\<lambda>s. False), int_str = (\<lambda>s. False)\<rparr>
      negative_price_item = Inr (True, ''Valid'')"
    by blast
  moreover from T have "products_df (add_product negative_price_item
      \<lparr>products_df = Some [], products_csv = Some []\<rparr>) = Some [negative_price_item]"
    by simp
  ultimately show ?thesis by (simp add: negative_price_item_def)
qed

text \<open>
  C2 as stated fails: an item without a name, with a text that is no integer as id and
  with a negative price is appended to the table and written to the file; the stored
  catalog changes.
\<close>

theorem C2_counterexample:
  "add_product item_without_name \<lparr>products_df = Some [], products_csv = Some []\<rparr> =
     \<lparr>products_df = Some [item_without_name], products_csv = Some [item_without_name]\<rparr> \<and>
   map_of item_without_name ''name'' = None \<and>
   map_of item_without_name ''price'' = Some (PFloat (- 5)) \<and>
   Some [item_without_name] \<noteq> Some []"
  by (simp add: add_product_def Let_def item_without_name_def)


section \<open>The claims about the feedback log\<close>

lemma length_read_csv: "length (read_csv R rows) = length rows"
  by (simp add: read_csv_def)

lemma read_csv_Nil_iff: "read_csv R rows = [] \<longleftrightarrow> rows = []"
  by (simp add: read_csv_def)

lemma numbers_read_csv:
  "map confidence (read_csv R rows) = map confidence rows"
  "map rating (read_csv R rows) = map rating rows"
  "map num_recommendations (read_csv R rows) = map num_recommendations rows"
  by (simp_all add: read_csv_def comp_def)

lemma texts_read_csv:
  "map timestamp (read_csv R rows) =
     map (read_cell R (map timestamp rows)) (map timestamp rows)"
  "map detected_emotion (read_csv R rows) =
     map (read_cell R (map detected_emotion rows)) (map detected_emotion rows)"
  "map feedback_text (read_csv R rows) =
     map (read_cell R (map feedback_text rows)) (map feedback_text rows)"
  by (simp_all add: read_csv_def comp_def)


lemma texts_to_csv:
  "map timestamp (to_csv df) = map write_cell (map timestamp df)"
  "map detected_emotion (to_csv df) = map write_cell (map detected_emotion df)"
  "map feedback_text (to_csv df) = map write_cell (map feedback_text df)"
  by (simp_all add: to_csv_def comp_def)

lemma read_feedback_stored: "read_feedback R file = read_csv R (stored_rows file)"
  by (simp add: read_feedback_def stored_rows_def read_csv_def split: option.split)

lemma log_feedback_rows:
  "log_feedback R now e c r t k file =
     Some (to_csv (read_csv R (stored_rows file)) @
           [\<lparr>timestamp = now, detected_emotion = e, confidence = c, rating = r,
             feedback_text = t, num_recommendations = k\<rparr>])"
  by (simp add: log_feedback_def Let_def read_feedback_stored to_csv_def)





lemma words_not_na:
  "\<not> is_na ''sad''" "\<not> is_na ''happy''"
  "\<not> is_na ''2024-05-01T09:00:00''" "\<not> is_na ''2024-05-01T10:00:00''"
  "\<not> is_na ''2024-05-01T10:05:00''" "\<not> is_na ''1''"
  by (simp_all add: is_na_def csv_na_values_def)

lemma empty_is_na: "is_na []"
  by (simp add: is_na_def csv_na_values_def)




lemma value_counts_at:
  "value_counts cells k = (if count_list cells (Some k) = 0 then None else Some (count_list cells (Some k)))"
  by (simp add: value_counts_def Let_def)

lemma count_list_map_iff:
  "(\<And>x. x \<in> set xs \<Longrightarrow> (f x = a) = (g x = b)) \<Longrightarrow>
   count_list (map f xs) a = count_list (map g xs) b"
  by (induction xs) simp_all

lemma text_keeps_column:
  assumes "\<not> is_na e" and "\<not> number_like R e" and "\<not> bool_like R e" and "e \<in> set col"
  shows "\<not> retyped R col"
proof -
  from assms(1,4) have "e \<in> set (filter (\<lambda>s. \<not> is_na s) col)" by simp
  with assms(2,3) show ?thesis
    by (auto simp: retyped_def Let_def list_all_iff)
qed

lemma retyped_cell_kind:
  assumes "retyped R col" and "s \<in> set col" and "\<not> is_na s"
  shows "number_like R s \<or> bool_like R s"
proof -
  from assms(2,3) have "s \<in> set (filter (\<lambda>s. \<not> is_na s) col)" by simp
  with assms(1) show ?thesis
    by (auto simp: retyped_def Let_def list_all_iff)
qed

lemma written_is_label_iff:
  assumes "reader_stable R" and "\<not> is_na e" and "\<not> number_like R e" and "\<not> bool_like R e"
    and "s \<in> set col"
  shows "(write_cell (read_cell R col s) = e) = (read_cell R col s = Some (Text e))"
proof (cases "is_na s")
  case True
  with assms(2) empty_is_na show ?thesis by (auto simp: read_cell_def)
next
  case False
  show ?thesis
  proof (cases "retyped R col")
    case True
    from retyped_cell_kind [OF True assms(5) False] assms(1)
    have "number_like R (rewritten R col s) \<or> bool_like R (rewritten R col s)"
      by (auto simp: reader_stable_def)
    with assms(3,4) have "rewritten R col s \<noteq> e" by auto
    with True False show ?thesis by (simp add: read_cell_def)
  next
    case False
    with \<open>\<not> is_na s\<close> show ?thesis by (simp add: read_cell_def)
  qed
qed

lemma read_is_label_iff:
  assumes "\<not> retyped R col" and "\<not> is_na e"
  shows "(read_cell R col s = Some (Text e)) = (s = e)"
  using assms by (auto simp: read_cell_def)

lemma export_rows:
  "rows \<noteq> [] \<Longrightarrow>
   export_feedback_summary R (Some rows) =
     Some \<lparr>total_feedback = length rows,
       average_rating = mean_of (map (\<lambda>r. of_int (rating r)) rows),
       emotion_distribution =
         value_counts (map (read_cell R (map detected_emotion rows)) (map detected_emotion rows)),
       confidence_stats =
         \<lparr>conf_mean = mean_of (map confidence rows),
          conf_min = Min (set (map confidence rows)),
          conf_max = Max (set (map confidence rows))\<rparr>\<rparr>"
proof -
  assume ne: "rows \<noteq> []"
  have r: "map (\<lambda>r. of_int (rating r)) (read_csv R rows) = map (\<lambda>r. (of_int (rating r) :: rat)) rows"
    by (simp add: read_csv_def comp_def)
  from ne show ?thesis
    by (simp add: export_feedback_summary_def Let_def read_csv_Nil_iff length_read_csv r
        numbers_read_csv texts_read_csv)
qed

lemma total_before_eq: "total_before R file = length (stored_rows file)"
proof (cases "stored_rows file = []")
  case True
  then show ?thesis
    by (auto simp: total_before_def export_feedback_summary_def stored_rows_def Let_def
        read_csv_Nil_iff split: option.splits)
next
  case False
  then obtain rows where "file = Some rows" "rows \<noteq> []"
    by (auto simp: stored_rows_def split: option.splits)
  then show ?thesis by (simp add: total_before_def export_rows stored_rows_def)
qed

lemma count_before_eq:
  "count_before R file e =
     count_list (map (read_cell R (map detected_emotion (stored_rows file)))
                   (map detected_emotion (stored_rows file))) (Some (Text e))"
proof (cases "stored_rows file = []")
  case True
  then show ?thesis
    by (auto simp: count_before_def export_feedback_summary_def stored_rows_def Let_def
        read_csv_Nil_iff split: option.splits)
next
  case False
  then obtain rows where "file = Some rows" "rows \<noteq> []"
    by (auto simp: stored_rows_def split: option.splits)
  then show ?thesis
    by (simp add: count_before_def export_rows stored_rows_def value_counts_at)
qed

lemma count_written:
  assumes "reader_stable R" and "\<not> is_na e" and "\<not> number_like R e" and "\<not> bool_like R e"
  shows "count_list (map (\<lambda>s. write_cell (read_cell R col s)) col) e =
         count_list (map (read_cell R col) col) (Some (Text e))"
  by (rule count_list_map_iff) (rule written_is_label_iff [OF assms])

lemma count_read_kept:
  assumes "\<not> retyped R col" and "\<not> is_na e"
  shows "count_list (map (read_cell R col) col) (Some (Text e)) = count_list col e"
proof -
  have "count_list (map (read_cell R col) col) (Some (Text e)) = count_list (map (\<lambda>s. s) col) e"
    by (rule count_list_map_iff) (rule read_is_label_iff [OF assms])
  then show ?thesis by simp
qed

lemma summary_after_append:
  assumes "reader_stable R" and "\<not> is_na e" and "\<not> number_like R e" and "\<not> bool_like R e"
  shows "\<exists>s. export_feedback_summary R (log_feedback R now e c r t k file) = Some s \<and>
            total_feedback s = total_before R file + 1 \<and>
            emotion_distribution s (Text e) = Some (count_before R file e + 1)"
proof -
  define old where "old = stored_rows file"
  define col where "col = map detected_emotion old"
  define written where "written = map (\<lambda>s. write_cell (read_cell R col s)) col"
  define rows where "rows = to_csv (read_csv R old) @
      [\<lparr>timestamp = now, detected_emotion = e, confidence = c, rating = r,
        feedback_text = t, num_recommendations = k\<rparr>]"
  have out: "log_feedback R now e c r t k file = Some rows"
    unfolding rows_def old_def by (rule log_feedback_rows)
  have ne: "rows \<noteq> []" by (simp add: rows_def)
  have len: "length rows = length old + 1"
    by (simp add: rows_def to_csv_def length_read_csv)
  have col': "map detected_emotion rows = written @ [e]"
    by (simp add: rows_def written_def col_def texts_to_csv texts_read_csv)
  have "e \<in> set (written @ [e])" by simp
  with assms(2-4) have keep: "\<not> retyped R (written @ [e])" by (rule text_keeps_column)
  have "count_list (map (read_cell R (written @ [e])) (written @ [e])) (Some (Text e)) =
      count_list (written @ [e]) e"
    using keep assms(2) by (rule count_read_kept)
  also have "\<dots> = count_list written e + 1" by simp
  also have "count_list written e = count_list (map (read_cell R col) col) (Some (Text e))"
    unfolding written_def using assms by (rule count_written)
  also have "\<dots> = count_before R file e"
    by (simp only: count_before_eq col_def old_def)
  finally have cnt: "count_list (map (read_cell R (written @ [e])) (written @ [e]))
      (Some (Text e)) = count_before R file e + 1" .
  have tot: "total_before R file = length old"
    by (simp only: total_before_eq old_def)
  from export_rows [OF ne, of R] cnt len tot
  have "\<exists>s. export_feedback_summary R (Some rows) = Some s \<and>
            total_feedback s = total_before R file + 1 \<and>
            emotion_distribution s (Text e) = Some (count_before R file e + 1)"
    by (simp add: value_counts_at col')
  then show ?thesis by (simp only: out)
qed

lemma summary_first_sad:
  assumes "\<not> number_like R ''sad''" and "\<not> bool_like R ''sad''" and "stored_rows file = []"
  shows "export_feedback_summary R (log_feedback R now ''sad'' (82 / 100) 4 '''' 5 file) =
           Some \<lparr>total_feedback = 1, average_rating = 4,
             emotion_distribution = [Text ''sad'' \<mapsto> 1],
             confidence_stats = \<lparr>conf_mean = 82 / 100, conf_min = 82 / 100, conf_max = 82 / 100\<rparr>\<rparr>"
proof -
  have keep: "\<not> retyped R [''sad'']"
    using assms(1,2) by (simp add: retyped_def words_not_na)
  have vc: "value_counts [Some (Text ''sad'')] = [Text ''sad'' \<mapsto> 1]"
    by (rule ext) (simp add: value_counts_def)
  have out: "log_feedback R now ''sad'' (82 / 100) 4 '''' 5 file =
      Some [\<lparr>timestamp = now, detected_emotion = ''sad'', confidence = 82 / 100, rating = 4,
             feedback_text = '''', num_recommendations = 5\<rparr>]"
    by (simp add: log_feedback_rows assms(3) read_csv_def to_csv_def)
  show ?thesis
    by (simp only: out) (simp add: export_rows read_cell_def keep words_not_na vc mean_of_def)
qed

text \<open>
  C9 (as amended). For every state of the feedback log and every record whose emotion
  label is read back from the CSV file as the same text (it is not empty and not an NA
  token, and it does not parse as a number or as a boolean), \<open>append\<close> followed by
  \<open>summarize\<close> gives a summary whose \<open>total_feedback\<close> is one more than before and
  whose \<open>emotion_distribution[record.emotion]\<close> is one more than before (an absent
  summary or entry counting as 0). In particular, starting from an empty log (absent,
  or without rows), appending the record with emotion \<open>"sad"\<close>, confidence 0.82,
  rating 4, empty text and 5 recommendations gives \<open>total_feedback = 1\<close>,
  \<open>average_rating = 4\<close>, \<open>emotion_distribution = {"sad": 1}\<close> and confidence
  mean = min = max = 0.82.
\<close>

theorem C9_append_then_summarize:
  assumes "reader_stable R" and "\<not> is_na e" and "\<not> number_like R e" and "\<not> bool_like R e"
  shows "(\<exists>s. export_feedback_summary R (log_feedback R now e c r t k file) = Some s \<and>
            total_feedback s = total_before R file + 1 \<and>
            emotion_distribution s (Text e) = Some (count_before R file e + 1)) \<and>
         (\<not> number_like R ''sad'' \<longrightarrow> \<not> bool_like R ''sad'' \<longrightarrow>
            export_feedback_summary R (log_feedback R now ''sad'' (82 / 100) 4 '''' 5 None) =
              Some \<lparr>total_feedback = 1, average_rating = 4,
                emotion_distribution = [Text ''sad'' \<mapsto> 1],
                confidence_stats =
                  \<lparr>conf_mean = 82 / 100, conf_min = 82 / 100, conf_max = 82 / 100\<rparr>\<rparr> \<and>
            export_feedback_summary R (log_feedback R now ''sad'' (82 / 100) 4 '''' 5 (Some [])) =
              export_feedback_summary R (log_feedback R now ''sad'' (82 / 100) 4 '''' 5 None))"
proof -
  have n: "stored_rows None = []" and s: "stored_rows (Some []) = []"
    by (simp_all add: stored_rows_def)
  from summary_after_append [OF assms, of now c r t k "file"]
    summary_first_sad [of R None now, OF _ _ n] summary_first_sad [of R "Some []" now, OF _ _ s]
  show ?thesis by simp
qed

lemma example_reader_stable: "reader_stable example_reader"
  by (simp add: reader_stable_def example_reader_def)

lemma sad_is_text:
  "\<not> number_like example_reader ''sad''" "\<not> bool_like example_reader ''sad''"
  by (simp_all add: example_reader_def)

theorem C9_append_then_summarize_witness:
  "\<not> is_na ''sad'' \<and>
   \<not> number_like example_reader ''sad'' \<and> \<not> bool_like example_reader ''sad'' \<and>
   total_before example_reader (Some [sad_at ''2024-05-01T10:00:00'']) = 1 \<and>
   count_before example_reader (Some [sad_at ''2024-05-01T10:00:00'']) ''sad'' = 1 \<and>
   (\<exists>s. export_feedback_summary example_reader
          (log_feedback example_reader ''2024-05-01T10:05:00'' ''sad'' (82 / 100) 4 '''' 5
             (Some [sad_at ''2024-05-01T10:00:00''])) = Some s \<and>
        total_feedback s = 2 \<and> emotion_distribution s (Text ''sad'') = Some 2) \<and>
   export_feedback_summary example_reader
     (log_feedback example_reader ''2024-05-01T10:05:00'' ''sad'' (82 / 100) 4 '''' 5 None) =
     Some \<lparr>total_feedback = 1, average_rating = 4, emotion_distribution = [Text ''sad'' \<mapsto> 1],
       confidence_stats = \<lparr>conf_mean = 82 / 100, conf_min = 82 / 100, conf_max = 82 / 100\<rparr>\<rparr>"
proof -
  have b: "total_before example_reader (Some [sad_at ''2024-05-01T10:00:00'']) = 1"
    by (simp add: total_before_eq stored_rows_def)
  have k: "\<not> retyped example_reader [''sad'']"
    by (simp add: retyped_def example_reader_def words_not_na)
  have c: "count_before example_reader (Some [sad_at ''2024-05-01T10:00:00'']) ''sad'' = 1"
    by (simp add: count_before_eq stored_rows_def sad_at_def read_cell_def k words_not_na)
  note T = C9_append_then_summarize [OF example_reader_stable words_not_na(1) sad_is_text,
      of "''2024-05-01T10:05:00''" "82 / 100" 4 "''''" 5 "Some [sad_at ''2024-05-01T10:00:00'']"]
  from T obtain s where s: "export_feedback_summary example_reader
          (log_feedback example_reader ''2024-05-01T10:05:00'' ''sad'' (82 / 100) 4 '''' 5
             (Some [sad_at ''2024-05-01T10:00:00''])) = Some s"
      "total_feedback s = total_before example_reader (Some [sad_at ''2024-05-01T10:00:00'']) + 1"
      "emotion_distribution s (Text ''sad'') =
         Some (count_before example_reader (Some [sad_at ''2024-05-01T10:00:00'']) ''sad'' + 1)"
    by blast
  from s(2) b have "total_feedback s = 2" by simp
  moreover from s(3) c have "emotion_distribution s (Text ''sad'') = Some 2" by simp
  ultimately have e: "\<exists>s. export_feedback_summary example_reader
          (log_feedback example_reader ''2024-05-01T10:05:00'' ''sad'' (82 / 100) 4 '''' 5
             (Some [sad_at ''2024-05-01T10:00:00''])) = Some s \<and>
        total_feedback s = 2 \<and> emotion_distribution s (Text ''sad'') = Some 2"
    using s(1) by blast
  from T sad_is_text
  have f: "export_feedback_summary example_reader
     (log_feedback example_reader ''2024-05-01T10:05:00'' ''sad'' (82 / 100) 4 '''' 5 None) =
     Some \<lparr>total_feedback = 1, average_rating = 4, emotion_distribution = [Text ''sad'' \<mapsto> 1],
       confidence_stats = \<lparr>conf_mean = 82 / 100, conf_min = 82 / 100, conf_max = 82 / 100\<rparr>\<rparr>"
    by blast
  from words_not_na(1) sad_is_text b c e f show ?thesis by blast
qed

text \<open>
  C9 as stated fails: a record whose emotion is the empty string is written as an empty
  field, which is read back as a missing value; and a record whose emotion is the text
  \<open>1\<close>, appended to the empty log, is read back as the number 1. In both cases the
  summary counts the row in the total, but the distribution has no entry for the label
  of the record, where the claim promises 1.
\<close>

theorem C9_counterexample:
  "export_feedback_summary example_reader
     (log_feedback example_reader ''2024-05-01T10:00:00'' '''' (1 / 2) 3 '''' 5 (Some [])) =
     Some \<lparr>total_feedback = 1, average_rating = 3, emotion_distribution = Map.empty,
       confidence_stats = \<lparr>conf_mean = 1 / 2, conf_min = 1 / 2, conf_max = 1 / 2\<rparr>\<rparr> \<and>
   count_before example_reader (Some []) '''' = 0 \<and>
   export_feedback_summary example_reader
     (log_feedback example_reader ''2024-05-01T10:00:00'' ''1'' (1 / 2) 3 '''' 5 (Some [])) =
     Some \<lparr>total_feedback = 1, average_rating = 3, emotion_distribution = [Retyped ''1'' \<mapsto> 1],
       confidence_stats = \<lparr>conf_mean = 1 / 2, conf_min = 1 / 2, conf_max = 1 / 2\<rparr>\<rparr> \<and>
   [Retyped ''1'' \<mapsto> (1::nat)] (Text ''1'') = None \<and>
   count_before example_reader (Some []) ''1'' = 0"
proof -
  have v0: "value_counts [None :: cell option] = Map.empty"
    by (rule ext) (simp add: value_counts_def)
  have v1: "value_counts [Some (Retyped ''1'')] = [Retyped ''1'' \<mapsto> 1]"
    by (rule ext) (simp add: value_counts_def)
  have o0: "log_feedback example_reader ''2024-05-01T10:00:00'' '''' (1 / 2) 3 '''' 5 (Some []) =
      Some [\<lparr>timestamp = ''2024-05-01T10:00:00'', detected_emotion = '''', confidence = 1 / 2,
        rating = 3, feedback_text = '''', num_recommendations = 5\<rparr>]"
    by (simp add: log_feedback_rows stored_rows_def read_csv_def to_csv_def)
  have o1: "log_feedback example_reader ''2024-05-01T10:00:00'' ''1'' (1 / 2) 3 '''' 5 (Some []) =
      Some [\<lparr>timestamp = ''2024-05-01T10:00:00'', detected_emotion = ''1'', confidence = 1 / 2,
        rating = 3, feedback_text = '''', num_recommendations = 5\<rparr>]"
    by (simp add: log_feedback_rows stored_rows_def read_csv_def to_csv_def)
  have r1: "retyped example_reader [''1'']"
    by (simp add: retyped_def example_reader_def words_not_na)
  have w1: "rewritten example_reader [''1''] ''1'' = ''1''"
    by (simp add: example_reader_def)
  have a: "export_feedback_summary example_reader
     (log_feedback example_reader ''2024-05-01T10:00:00'' '''' (1 / 2) 3 '''' 5 (Some [])) =
     Some \<lparr>total_feedback = 1, average_rating = 3, emotion_distribution = Map.empty,
       confidence_stats = \<lparr>conf_mean = 1 / 2, conf_min = 1 / 2, conf_max = 1 / 2\<rparr>\<rparr>"
    by (simp only: o0) (simp add: export_rows read_cell_def empty_is_na v0 mean_of_def)
  have b: "export_feedback_summary example_reader
     (log_feedback example_reader ''2024-05-01T10:00:00'' ''1'' (1 / 2) 3 '''' 5 (Some [])) =
     Some \<lparr>total_feedback = 1, average_rating = 3, emotion_distribution = [Retyped ''1'' \<mapsto> 1],
       confidence_stats = \<lparr>conf_mean = 1 / 2, conf_min = 1 / 2, conf_max = 1 / 2\<rparr>\<rparr>"
    by (simp only: o1) (simp add: export_rows read_cell_def words_not_na r1 w1 v1 mean_of_def)
  have c: "count_before example_reader (Some []) '''' = 0"
      "count_before example_reader (Some []) ''1'' = 0"
    by (simp_all add: count_before_eq stored_rows_def)
  from a b c show ?thesis by simp
qed

section \<open>Facts about the playlist adapter\<close>

lemma unique_loop_char:
  "int (length acc) < n \<Longrightarrow>
   unique_loop n ps seen acc =
     acc @ take (nat n - length acc) (first_of_each_name seen (filter passes_quality ps))"
proof (induction ps arbitrary: seen acc)
  case Nil
  then show ?case by simp
next
  case (Cons p ps)
  show ?case
  proof (cases "name_key p \<notin> seen \<and> passes_quality p")
    case False
    then have "unique_loop n (p # ps) seen acc = unique_loop n ps seen acc"
      by (auto simp: name_key_def passes_quality_def Let_def)
    moreover have "first_of_each_name seen (filter passes_quality (p # ps)) =
        first_of_each_name seen (filter passes_quality ps)"
      using False by auto
    ultimately show ?thesis using Cons.IH [OF Cons.prems] by simp
  next
    case True
    then have acc: "name_key p \<notin> seen" "passes_quality p" by simp_all
    have fo: "first_of_each_name seen (filter passes_quality (p # ps)) =
        p # first_of_each_name (insert (name_key p) seen) (filter passes_quality ps)"
      using acc by simp
    show ?thesis
    proof (cases "n \<le> int (length (acc @ [p]))")
      case True
      then have "unique_loop n (p # ps) seen acc = acc @ [p]"
        using acc by (simp add: name_key_def passes_quality_def Let_def)
      moreover from True Cons.prems have "nat n - length acc = Suc 0" by simp
      ultimately show ?thesis using acc by (simp del: unique_loop.simps)
    next
      case False
      then have lt: "int (length (acc @ [p])) < n" by simp
      from False have "unique_loop n (p # ps) seen acc =
          unique_loop n ps (insert (name_key p) seen) (acc @ [p])"
        using acc by (simp add: name_key_def passes_quality_def Let_def)
      also have "\<dots> = (acc @ [p]) @ take (nat n - length (acc @ [p]))
          (first_of_each_name (insert (name_key p) seen) (filter passes_quality ps))"
        by (rule Cons.IH [OF lt])
      also have "\<dots> = acc @ take (nat n - length acc)
          (p # first_of_each_name (insert (name_key p) seen) (filter passes_quality ps))"
      proof -
        from lt have "nat n - length acc = Suc (nat n - length (acc @ [p]))" by simp
        then show ?thesis by simp
      qed
      finally show ?thesis by (simp only: fo)
    qed
  qed
qed

lemma unique_loop_nonpos: "n \<le> 0 \<Longrightarrow> length (unique_loop n ps seen []) \<le> 1"
  by (induction ps arbitrary: seen) (auto simp: Let_def)

lemma select_playlists_char:
  "select_playlists n all_playlists =
     take (nat n) (first_of_each_name {} (filter passes_quality all_playlists))"
proof (cases "0 < n")
  case True
  then have "unique_loop n all_playlists {} [] =
      take (nat n) (first_of_each_name {} (filter passes_quality all_playlists))"
    using unique_loop_char [of "[]" n all_playlists "{}"] by simp
  with True show ?thesis by (simp add: select_playlists_def slice_to_def)
next
  case False
  then have "n \<le> 0" by simp
  from unique_loop_nonpos [OF this, of all_playlists "{}"] False
  show ?thesis by (simp add: select_playlists_def slice_to_def)
qed

lemma subseq_first_of_each_name: "subseq (first_of_each_name seen ps) ps"
  by (induction ps arbitrary: seen) auto

lemma keys_first_of_each_name:
  "q \<in> set (first_of_each_name seen ps) \<Longrightarrow> name_key q \<notin> seen"
  by (induction ps arbitrary: seen) (auto split: if_splits)


lemma distinct_first_of_each_name: "distinct (map name_key (first_of_each_name seen ps))"
proof (induction ps arbitrary: seen)
  case Nil
  then show ?case by simp
next
  case (Cons p ps)
  have "name_key p \<notin> name_key ` set (first_of_each_name (insert (name_key p) seen) ps)"
    using keys_first_of_each_name by fastforce
  then show ?case using Cons.IH by simp
qed

lemma find_first_of_each_name:
  "q \<in> set (first_of_each_name seen ps) \<Longrightarrow> find (\<lambda>r. name_key r = name_key q) ps = Some q"
proof (induction ps arbitrary: seen)
  case Nil
  then show ?case by simp
next
  case (Cons p ps)
  show ?case
  proof (cases "name_key p \<in> seen")
    case True
    with Cons.prems have q: "q \<in> set (first_of_each_name seen ps)" by simp
    then have "name_key q \<notin> seen" by (rule keys_first_of_each_name)
    with True have "name_key p \<noteq> name_key q" by auto
    with Cons.IH [OF q] show ?thesis by simp
  next
    case False
    with Cons.prems have "q = p \<or> q \<in> set (first_of_each_name (insert (name_key p) seen) ps)"
      by auto
    then show ?thesis
    proof
      assume "q = p"
      then show ?thesis by simp
    next
      assume q: "q \<in> set (first_of_each_name (insert (name_key p) seen) ps)"
      then have "name_key q \<notin> insert (name_key p) seen" by (rule keys_first_of_each_name)
      then have "name_key p \<noteq> name_key q" by auto
      with Cons.IH [OF q] show ?thesis by simp
    qed
  qed
qed

lemma find_filter_conj: "find P (filter Q xs) = find (\<lambda>x. Q x \<and> P x) xs"
  by (induction xs) auto

lemma subseq_take: "subseq (take k xs) xs"
  by (metis append_take_drop_id subseq_rev_drop_many subseq_order.order_refl)

text \<open>
  On a ready adapter the result of \<open>get_playlists_by_mood\<close> is \<open>select_playlists\<close>
  applied to the playlists the first loop gathered; the properties of the selection
  below are therefore properties of the result.
\<close>

lemma get_playlists_by_mood_ready:
  "client self = Some c \<Longrightarrow>
   get_playlists_by_mood self mood n =
     (select_playlists n
        (fst (gather c n (take 3 (get_search_terms (if falsy_str mood then ''music'' else the mood)))
                [] [])),
      snd (gather c n (take 3 (get_search_terms (if falsy_str mood then ''music'' else the mood)))
                [] []))"
  by (simp add: get_playlists_by_mood_def select_playlists_def Let_def split: prod.split)

lemma search_vibes: "search_playlists vibes_client q = [happy_vibes, happy_vibes_lc]"
  by (simp add: search_playlists_def vibes_client_def raw_of_def happy_vibes_def
      happy_vibes_lc_def)

lemma terms_happy: "take 3 (get_search_terms ''happy'') = [''happy'', ''upbeat'', ''positive'']"
proof -
  have "strip (lower ''happy'') = ''happy''" by code_simp
  then show ?thesis by (simp add: get_search_terms_def mood_keywords_def)
qed

lemma gather_vibes:
  "gather vibes_client 5 [''happy'', ''upbeat'', ''positive''] [] [] =
     ([happy_vibes, happy_vibes_lc, happy_vibes, happy_vibes_lc, happy_vibes, happy_vibes_lc],
      [''happy playlist'', ''upbeat playlist'', ''positive playlist''])"
  by (simp add: search_vibes Let_def)

lemma key_happy_vibes: "name_key happy_vibes = ''happy vibes''"
  unfolding name_key_def happy_vibes_def by code_simp

lemma key_happy_vibes_lc: "name_key happy_vibes_lc = ''happy vibes''"
  unfolding name_key_def happy_vibes_lc_def by code_simp

lemma quality_happy_vibes: "passes_quality happy_vibes" "passes_quality happy_vibes_lc"
  by (simp_all add: passes_quality_def happy_vibes_def happy_vibes_lc_def)
section \<open>The claims about the playlist adapter\<close>

text \<open>
  C6. For every mood, also the empty string and \<open>None\<close>, and every \<open>n\<close>,
  \<open>get_playlists_by_mood\<close> on an adapter whose client is \<open>None\<close> returns the empty list
  and sends no query. The client is \<open>None\<close> whenever initialization fails: a credential
  is missing or empty, the constructor raises, or the test search raises.
\<close>

theorem C6_unavailable_returns_empty:
  "(client self = None \<longrightarrow> get_playlists_by_mood self mood n = ([], [])) \<and>
   (falsy_str (client_id env) \<or> falsy_str (client_secret env) \<or> connect env = None \<or>
      (\<exists>c. connect env = Some c \<and> c ''test'' = None) \<longrightarrow>
    client (initialize_client env) = None \<and>
    get_playlists_by_mood (initialize_client env) mood n = ([], []))"
proof -
  have a: "client self = None \<longrightarrow> get_playlists_by_mood self mood n = ([], [])" for self
    by (simp add: get_playlists_by_mood_def)
  have b: "falsy_str (client_id env) \<or> falsy_str (client_secret env) \<or> connect env = None \<or>
      (\<exists>c. connect env = Some c \<and> c ''test'' = None) \<longrightarrow> client (initialize_client env) = None"
    by (auto simp: initialize_client_def split: option.splits)
  from a [of self] a [of "initialize_client env"] b show ?thesis by simp
qed

theorem C6_unavailable_returns_empty_witness:
  "client \<lparr>client = None\<rparr> = None \<and>
   get_playlists_by_mood \<lparr>client = None\<rparr> None 5 = ([], []) \<and>
   get_playlists_by_mood \<lparr>client = None\<rparr> (Some '''') 5 = ([], []) \<and>
   get_playlists_by_mood \<lparr>client = None\<rparr> (Some ''happy'') 5 = ([], []) \<and>
   falsy_str (client_id \<lparr>client_id = None, client_secret = Some ''s'', connect = Some vibes_client\<rparr>) \<and>
   get_playlists_by_mood
     (initialize_client \<lparr>client_id = None, client_secret = Some ''s'', connect = Some vibes_client\<rparr>)
     (Some ''happy'') 5 = ([], [])"
proof -
  have c: "client \<lparr>client = None\<rparr> = None" by simp
  have f: "falsy_str (client_id \<lparr>client_id = None, client_secret = Some ''s'',
      connect = Some vibes_client\<rparr>)"
    by (simp add: falsy_str_def)
  from C6_unavailable_returns_empty [of "\<lparr>client = None\<rparr>" None 5] c
  have 1: "get_playlists_by_mood \<lparr>client = None\<rparr> None 5 = ([], [])" by blast
  from C6_unavailable_returns_empty [of "\<lparr>client = None\<rparr>" "Some ''''" 5] c
  have 2: "get_playlists_by_mood \<lparr>client = None\<rparr> (Some '''') 5 = ([], [])" by blast
  from C6_unavailable_returns_empty [of "\<lparr>client = None\<rparr>" "Some ''happy''" 5
      "\<lparr>client_id = None, client_secret = Some ''s'', connect = Some vibes_client\<rparr>"] c f
  have 3: "get_playlists_by_mood \<lparr>client = None\<rparr> (Some ''happy'') 5 = ([], [])"
    and 4: "get_playlists_by_mood
     (initialize_client \<lparr>client_id = None, client_secret = Some ''s'', connect = Some vibes_client\<rparr>)
     (Some ''happy'') 5 = ([], [])"
    by blast+
  from c f 1 2 3 4 show ?thesis by blast
qed

lemma select_subseq: "subseq (select_playlists n all_playlists) all_playlists"
proof -
  have "subseq (take (nat n) (first_of_each_name {} (filter passes_quality all_playlists)))
      (first_of_each_name {} (filter passes_quality all_playlists))"
    by (rule subseq_take)
  also have "subseq \<dots> (filter passes_quality all_playlists)"
    by (rule subseq_first_of_each_name)
  also have "subseq \<dots> all_playlists" by simp
  finally show ?thesis by (simp only: select_playlists_char)
qed

lemma select_distinct: "distinct (map name_key (select_playlists n all_playlists))"
proof -
  have "distinct (take (nat n)
      (map name_key (first_of_each_name {} (filter passes_quality all_playlists))))"
    by (rule distinct_take) (rule distinct_first_of_each_name)
  then show ?thesis by (simp add: select_playlists_char take_map)
qed

lemma select_first:
  assumes "q \<in> set (select_playlists n all_playlists)"
  shows "find (\<lambda>r. passes_quality r \<and> name_key r = name_key q) all_playlists = Some q"
proof -
  from assms have "q \<in> set (first_of_each_name {} (filter passes_quality all_playlists))"
    unfolding select_playlists_char by (rule in_set_takeD)
  then have "find (\<lambda>r. name_key r = name_key q) (filter passes_quality all_playlists) = Some q"
    by (rule find_first_of_each_name)
  then show ?thesis by (simp only: find_filter_conj)
qed


lemma select_pair_same_name:
  assumes "passes_quality a" and "passes_quality b" and "name_key a = name_key b" and "0 < n"
  shows "select_playlists n [a, b] = [a]"
proof -
  from assms(4) obtain k where "nat n = Suc k" by (cases "nat n") auto
  with assms(1-3) show ?thesis by (simp add: select_playlists_char)
qed

text \<open>
  C7 (as amended). Deduplication in \<open>getByMood\<close> is case-insensitive, first-occurrence-wins
  among the candidates that pass the quality filter, and order-preserving: the result
  is a subsequence of the gathered candidates (no re-sorting), no two retained
  candidates have names equal up to case, and every retained candidate is the first
  candidate of its name (up to case) that passes the quality filter. Whenever two
  candidates that both pass the filter have names equal up to case (for example
  \<open>"Happy Vibes"\<close> followed by \<open>"happy vibes"\<close>), only the first-seen is retained. The
  result of \<open>getByMood\<close> on a ready adapter is this selection from the candidates gathered.
\<close>

theorem C7_dedup_first_accepted:
  "subseq (select_playlists n all_playlists) all_playlists \<and>
   distinct (map name_key (select_playlists n all_playlists)) \<and>
   (\<forall>q\<in>set (select_playlists n all_playlists).
      find (\<lambda>r. passes_quality r \<and> name_key r = name_key q) all_playlists = Some q) \<and>
   (passes_quality a \<longrightarrow> passes_quality b \<longrightarrow> name_key a = name_key b \<longrightarrow> 0 < n \<longrightarrow>
      select_playlists n [a, b] = [a]) \<and>
   (client self = Some c \<longrightarrow>
      fst (get_playlists_by_mood self mood n) =
        select_playlists n
          (fst (gather c n
                  (take 3 (get_search_terms (if falsy_str mood then ''music'' else the mood)))
                  [] [])))"
  using select_subseq [of n all_playlists] select_distinct [of n all_playlists]
    select_first [of _ n all_playlists] select_pair_same_name [of a b n]
    get_playlists_by_mood_ready [of self c mood n]
  by simp

theorem C7_dedup_first_accepted_witness:
  "passes_quality happy_vibes \<and> passes_quality happy_vibes_lc \<and>
   name_key happy_vibes = name_key happy_vibes_lc \<and> (0::int) < 5 \<and>
   select_playlists 5 [happy_vibes, happy_vibes_lc] = [happy_vibes] \<and>
   client \<lparr>client = Some vibes_client\<rparr> = Some vibes_client \<and>
   fst (get_playlists_by_mood \<lparr>client = Some vibes_client\<rparr> (Some ''happy'') 5) = [happy_vibes] \<and>
   find (\<lambda>r. passes_quality r \<and> name_key r = name_key happy_vibes)
     [happy_vibes, happy_vibes_lc] = Some happy_vibes"
proof -
  have k: "name_key happy_vibes = name_key happy_vibes_lc"
    by (simp only: key_happy_vibes key_happy_vibes_lc)
  have z: "(0::int) < 5" by simp
  have c: "client \<lparr>client = Some vibes_client\<rparr> = Some vibes_client" by simp
  have m: "(if falsy_str (Some ''happy'') then ''music'' else the (Some ''happy'')) = ''happy''"
    by (simp add: falsy_str_def)
  note T = C7_dedup_first_accepted [of 5 "[happy_vibes, happy_vibes_lc]" happy_vibes
      happy_vibes_lc "\<lparr>client = Some vibes_client\<rparr>" vibes_client "Some ''happy''"]
  from T quality_happy_vibes k z
  have s: "select_playlists 5 [happy_vibes, happy_vibes_lc] = [happy_vibes]" by blast
  from T s have f: "find (\<lambda>r. passes_quality r \<and> name_key r = name_key happy_vibes)
     [happy_vibes, happy_vibes_lc] = Some happy_vibes"
    by simp
  from T c have "fst (get_playlists_by_mood \<lparr>client = Some vibes_client\<rparr> (Some ''happy'') 5) =
        select_playlists 5
          (fst (gather vibes_client 5
                  (take 3 (get_search_terms
                     (if falsy_str (Some ''happy'') then ''music'' else the (Some ''happy''))))
                  [] []))"
    by blast
  also have "\<dots> = select_playlists 5
      [happy_vibes, happy_vibes_lc, happy_vibes, happy_vibes_lc, happy_vibes, happy_vibes_lc]"
    by (simp only: m terms_happy gather_vibes fst_conv)
  also have "\<dots> = [happy_vibes]"
    using quality_happy_vibes
    by (simp add: select_playlists_char key_happy_vibes key_happy_vibes_lc)
  finally have g: "fst (get_playlists_by_mood \<lparr>client = Some vibes_client\<rparr> (Some ''happy'') 5) =
      [happy_vibes]" .
  from quality_happy_vibes k z s c g f show ?thesis by blast
qed

text \<open>
  C7 as stated fails: of two candidates with names equal up to case, the first-seen has
  too few tracks and is rejected, and the later one is the one retained.
\<close>

theorem C7_counterexample:
  "name_key (happy_vibes\<lparr>total_tracks := 5\<rparr>) = name_key happy_vibes_lc \<and>
   select_playlists 5 [happy_vibes\<lparr>total_tracks := 5\<rparr>, happy_vibes_lc] = [happy_vibes_lc]"
proof -
  have k: "name_key (happy_vibes\<lparr>total_tracks := 5\<rparr>) = ''happy vibes''"
    using key_happy_vibes by (simp add: name_key_def)
  have q: "\<not> passes_quality (happy_vibes\<lparr>total_tracks := 5\<rparr>)"
    by (simp add: passes_quality_def)
  from k q quality_happy_vibes(2) show ?thesis
    by (simp add: select_playlists_char key_happy_vibes_lc)
qed









lemma select_filter_quality:
  "select_playlists n (filter passes_quality all_playlists) = select_playlists n all_playlists"
  by (simp add: select_playlists_char)





end
